theory Spec2Isabelle
  imports Main "HOL-Library.Sublist"
begin

section \<open>JavaScript strings\<close>

text \<open>
  A JavaScript string is a sequence of UTF-16 code units; \<open>length\<close>, \<open>substring\<close> and
  \<open>split\<close> all count code units. A code unit is modelled as a natural number (below
  65536 in every string the program can hold), so a string is a list of them. ASCII
  literals are written through \<open>js\<close>; the bullet of the footer separator and the emoji of
  the titles are given by their code units.
\<close>

type_synonym jschar = nat
type_synonym jsstring = "jschar list"

definition js :: "string \<Rightarrow> jsstring" where
  "js s = map of_char s"

definition newline :: jschar where
  "newline = 10"

definition bullet :: jschar where
  "bullet = 0x2022"

definition backticks :: jsstring where
  "backticks = [96, 96, 96]"

text \<open>
  \<open>`${n}`\<close> for a count \<open>n\<close>: the decimal digits of a non-negative integer (the counts
  here are array lengths and sums of a few of them, far below the range where JavaScript
  switches to exponent notation).
\<close>

function number_toString :: "nat \<Rightarrow> jsstring" where
  "number_toString n =
     (if n < 10 then [48 + n] else number_toString (n div 10) @ [48 + n mod 10])"
  by pat_completeness auto
termination
  by (relation "measure (\<lambda>n. n)") auto

declare number_toString.simps [simp del]

text \<open>
  \<open>s.split(sep)\<close>: the pieces of \<open>s\<close> between the occurrences of \<open>sep\<close>, scanning from
  the left; \<open>cur\<close> is the piece being collected. With an empty separator JavaScript
  returns the single code units.
\<close>

fun split_from :: "jsstring \<Rightarrow> jsstring \<Rightarrow> jsstring \<Rightarrow> jsstring list" where
  "split_from sep cur [] = [cur]"
| "split_from sep cur (x # xs) =
     (if prefix sep (x # xs) then cur # split_from sep [] (drop (length sep - 1) xs)
      else split_from sep (cur @ [x]) xs)"

definition js_split :: "jsstring \<Rightarrow> jsstring \<Rightarrow> jsstring list" where
  "js_split s sep = (if sep = [] then map (\<lambda>c. [c]) s else split_from sep [] s)"

text \<open>\<open>parts.join(sep)\<close>.\<close>

fun join :: "jsstring list \<Rightarrow> jsstring \<Rightarrow> jsstring" where
  "join [] sep = []"
| "join [p] sep = p"
| "join (p # q # ps) sep = p @ sep @ join (q # ps) sep"

text \<open>\<open>s.replace(pat, rep)\<close> with a string pattern: the first occurrence only.\<close>

fun js_replace :: "jsstring \<Rightarrow> jsstring \<Rightarrow> jsstring \<Rightarrow> jsstring" where
  "js_replace [] pat rep = (if pat = [] then rep else [])"
| "js_replace (x # xs) pat rep =
     (if prefix pat (x # xs) then rep @ drop (length pat) (x # xs)
      else x # js_replace xs pat rep)"

text \<open>\<open>s.substring(0, n)\<close>.\<close>

definition substring0 :: "jsstring \<Rightarrow> nat \<Rightarrow> jsstring" where
  "substring0 s n = take n s"

section \<open>Commits and payloads\<close>

record commit_author =
  author_name :: jsstring
  author_email :: jsstring
  avatar :: "jsstring option"

record commit_stats =
  additions :: nat
  deletions :: nat
  total :: nat

text \<open>
  A commit as the formatter and the poller see it. The three path arrays may be missing
  on a webhook commit (the code guards each read with \<open>|| []\<close> or \<open>?.length || 0\<close>),
  hence the options.
\<close>

record commit =
  commit_id :: jsstring
  sha :: jsstring
  message :: jsstring
  timestamp :: jsstring
  url :: jsstring
  author :: commit_author
  added :: "jsstring list option"
  modified :: "jsstring list option"
  removed :: "jsstring list option"
  stats :: commit_stats

record repository =
  repo_name :: jsstring

record payload =
  commits :: "commit list option"
  repository :: repository
  ref :: "jsstring option"

record embed_author =
  embed_author_name :: jsstring
  icon_url :: "jsstring option"

record embed_field =
  field_name :: jsstring
  field_value :: jsstring
  inline :: bool

text \<open>\<open>footer\<close> holds \<open>footer.text\<close>; \<open>None\<close> is an embed without a footer.\<close>

record embed =
  color :: nat
  title :: jsstring
  embed_url :: jsstring
  embed_author :: embed_author
  description :: jsstring
  embed_fields :: "embed_field list"
  footer :: "jsstring option"
  embed_timestamp :: jsstring

record change_stats =
  stats_added :: nat
  stats_removed :: nat
  stats_modified :: nat
  stats_total :: nat

section \<open>commit-formatter.js\<close>

text \<open>\<open>formatCommitMessage\<close>: the first line, cut to 97 code units and \<open>...\<close> past 100.\<close>

definition formatCommitMessage :: "jsstring \<Rightarrow> jsstring" where
  "formatCommitMessage msg =
     (let lines = js_split msg [newline];
          title = lines ! 0
      in if length title > 100 then substring0 title 97 @ js ''...'' else title)"

text \<open>\<open>x?.length || 0\<close> and \<open>x || []\<close> on a possibly missing array.\<close>

definition length_or_0 :: "'a list option \<Rightarrow> nat" where
  "length_or_0 x = (case x of None \<Rightarrow> 0 | Some xs \<Rightarrow> length xs)"

definition or_empty :: "'a list option \<Rightarrow> 'a list" where
  "or_empty x = (case x of None \<Rightarrow> [] | Some xs \<Rightarrow> xs)"

text \<open>\<open>calculateTotalChanges\<close>: the \<open>forEach\<close> loop over three running totals.\<close>

definition add_commit :: "commit \<Rightarrow> nat \<times> nat \<times> nat \<Rightarrow> nat \<times> nat \<times> nat" where
  "add_commit c acc =
     (case acc of (totalAdded, totalRemoved, totalModified) \<Rightarrow>
        (totalAdded + length_or_0 (added c),
         totalRemoved + length_or_0 (removed c),
         totalModified + length_or_0 (modified c)))"

definition calculateTotalChanges :: "commit list \<Rightarrow> change_stats" where
  "calculateTotalChanges cs =
     (case fold add_commit cs (0, 0, 0) of (totalAdded, totalRemoved, totalModified) \<Rightarrow>
        \<lparr>stats_added = totalAdded, stats_removed = totalRemoved,
         stats_modified = totalModified,
         stats_total = totalAdded + totalRemoved + totalModified\<rparr>)"

text \<open>\<open>formatChangeStats\<close>: \<open>parts\<close> grows by one \<open>push\<close> per non-zero count.\<close>

definition formatChangeStats :: "change_stats \<Rightarrow> jsstring" where
  "formatChangeStats st =
     (let parts0 = [];
          parts1 = (if stats_added st > 0
                    then parts0 @ [js ''+'' @ number_toString (stats_added st)] else parts0);
          parts2 = (if stats_removed st > 0
                    then parts1 @ [js ''-'' @ number_toString (stats_removed st)] else parts1);
          parts3 = (if stats_modified st > 0
                    then parts2 @ [js ''~'' @ number_toString (stats_modified st)] else parts2)
      in if length parts3 > 0 then join parts3 (js '' '') else js ''No changes'')"

text \<open>\<open>formatFileChanges\<close>: a \<open>diff\<close> code block of at most ten prefixed paths.\<close>

definition allFiles :: "commit \<Rightarrow> jsstring list" where
  "allFiles c =
     map (\<lambda>f. js ''+ '' @ f) (or_empty (added c)) @
     map (\<lambda>f. js ''~ '' @ f) (or_empty (modified c)) @
     map (\<lambda>f. js ''- '' @ f) (or_empty (removed c))"

definition formatFileChanges :: "commit \<Rightarrow> jsstring" where
  "formatFileChanges c =
     (if length (allFiles c) = 0 then js ''No files changed''
      else if length (allFiles c) > 10 then
        (let showing = take 10 (allFiles c);
             remaining = length (allFiles c) - 10
         in backticks @ js ''diff'' @ [newline] @ join showing [newline] @ [newline] @
            js ''... and '' @ number_toString remaining @ js '' more'' @ backticks)
      else backticks @ js ''diff'' @ [newline] @ join (allFiles c) [newline] @ backticks)"

text \<open>\<open>getCommitColor\<close>: decided by which of additions and deletions are present.\<close>

definition getCommitColor :: "commit \<Rightarrow> nat" where
  "getCommitColor c =
     (let hasAdditions = (case added c of None \<Rightarrow> False | Some a \<Rightarrow> length a > 0);
          hasDeletions = (case removed c of None \<Rightarrow> False | Some r \<Rightarrow> length r > 0)
      in if hasAdditions \<and> \<not> hasDeletions then 0x28a745
         else if hasDeletions \<and> \<not> hasAdditions then 0xdc3545
         else if hasAdditions \<and> hasDeletions then 0xffc107
         else 0x6f42c1)"

text \<open>
  The separator between the short commit id and the date in the footer,
  \<open>' \<bullet> '\<close> in the source: a space, U+2022 and a space.
\<close>

definition separator :: jsstring where
  "separator = js '' '' @ [bullet] @ js '' ''"

text \<open>
  \<open>createCommitEmbed\<close>. The result is \<open>None\<close> where the source returns \<open>null\<close>.
  \<open>toLocaleString\<close> stands for \<open>new Date(t).toLocaleString()\<close>, which depends on the
  locale and time zone of the process and is taken as a parameter.
\<close>

definition createCommitEmbed :: "(jsstring \<Rightarrow> jsstring) \<Rightarrow> payload \<Rightarrow> embed option" where
  "createCommitEmbed toLocaleString p =
     (case commits p of
        None \<Rightarrow> None
      | Some cs \<Rightarrow>
          if length cs = 0 then None
          else
            (let c = cs ! (length cs - 1);
                 repo = repository p;
                 branch = (case ref p of
                             None \<Rightarrow> js ''unknown''
                           | Some r \<Rightarrow> if r = [] then js ''unknown''
                                      else js_replace r (js ''refs/heads/'') []);
                 totalStats = calculateTotalChanges cs
             in Some
                 \<lparr>color = getCommitColor c,
                  title = [0xD83D, 0xDCDD] @ js '' New commit to '' @ repo_name repo,
                  embed_url = url c,
                  embed_author =
                    \<lparr>embed_author_name = author_name (author c),
                     icon_url = (case avatar (author c) of
                                   None \<Rightarrow> None
                                 | Some a \<Rightarrow> if a = [] then None else Some a)\<rparr>,
                  description = formatCommitMessage (message c),
                  embed_fields =
                    [\<lparr>field_name = [0xD83C, 0xDF3F] @ js '' Branch'',
                      field_value = js [CHR 0x60] @ branch @ js [CHR 0x60],
                      inline = True\<rparr>,
                     \<lparr>field_name = [0xD83D, 0xDCCA] @ js '' Changes'',
                      field_value = formatChangeStats totalStats,
                      inline = True\<rparr>,
                     \<lparr>field_name = [0xD83D, 0xDD27] @ js '' Files Modified'',
                      field_value = formatFileChanges c,
                      inline = False\<rparr>],
                  footer = Some (substring0 (commit_id c) 7 @ separator @
                                 toLocaleString (timestamp c)),
                  embed_timestamp = timestamp c\<rparr>))"

section \<open>github-service.js\<close>

datatype error = HttpError nat | NetworkError | FsError | DiscordError

text \<open>One element of the response of the commit-list endpoint, as far as the code reads it.\<close>

record gh_commit =
  gh_sha :: jsstring
  gh_message :: jsstring
  gh_author_name :: jsstring
  gh_author_email :: jsstring
  gh_author_date :: jsstring
  gh_html_url :: jsstring
  gh_avatar_url :: "jsstring option"

definition transformCommitData :: "gh_commit \<Rightarrow> commit" where
  "transformCommitData g =
     \<lparr>commit_id = gh_sha g,
      sha = gh_sha g,
      message = gh_message g,
      timestamp = gh_author_date g,
      url = gh_html_url g,
      author = \<lparr>author_name = gh_author_name g, author_email = gh_author_email g,
                avatar = gh_avatar_url g\<rparr>,
      added = Some [],
      modified = Some [],
      removed = Some [],
      stats = \<lparr>additions = 0, deletions = 0, total = 0\<rparr>\<rparr>"

text \<open>
  \<open>fetchLatestCommits\<close>: the request either fails (and the error is thrown on) or
  answers with a list, newest commit first. The answer of the network is the argument.
\<close>

definition fetchLatestCommits :: "error + gh_commit list \<Rightarrow> error + commit list" where
  "fetchLatestCommits response =
     (case response of
        Inl e \<Rightarrow> Inl e
      | Inr data \<Rightarrow> Inr (map transformCommitData data))"

text \<open>\<open>xs.findIndex(P)\<close>: the first index whose element satisfies \<open>P\<close>, or \<open>-1\<close>.\<close>

fun findIndex :: "('a \<Rightarrow> bool) \<Rightarrow> 'a list \<Rightarrow> int" where
  "findIndex P [] = - 1"
| "findIndex P (x # xs) =
     (if P x then 0
      else (let i = findIndex P xs in if i = - 1 then - 1 else i + 1))"

text \<open>\<open>!lastSeenCommitHash\<close>: \<open>null\<close> and the empty string are both falsy.\<close>

definition falsy :: "jsstring option \<Rightarrow> bool" where
  "falsy v = (case v of None \<Rightarrow> True | Some s \<Rightarrow> s = [])"

text \<open>
  \<open>checkForNewCommits\<close>. The one-repository and the many-repository versions of the
  file differ only in the URL they request, so one definition serves both. A failed
  request is caught and answered with the empty list.
\<close>

definition checkForNewCommits :: "error + gh_commit list \<Rightarrow> jsstring option \<Rightarrow> commit list" where
  "checkForNewCommits response lastSeenCommitHash =
     (case fetchLatestCommits response of
        Inl e \<Rightarrow> []
      | Inr allCommits \<Rightarrow>
          if falsy lastSeenCommitHash then take 1 allCommits
          else
            (let lastSeenIndex = findIndex (\<lambda>c. Some (sha c) = lastSeenCommitHash) allCommits
             in if lastSeenIndex = - 1 then take 1 allCommits
                else rev (take (nat lastSeenIndex) allCommits)))"

text \<open>The response of the single-commit endpoint, as far as the code reads it.\<close>

record gh_file =
  status :: jsstring
  filename :: jsstring

record gh_stats =
  gh_additions :: "nat option"
  gh_deletions :: "nat option"
  gh_total :: "nat option"

record gh_detail =
  files :: "gh_file list option"
  detail_stats :: "gh_stats option"

record commit_details =
  details_added :: "jsstring list"
  details_modified :: "jsstring list"
  details_removed :: "jsstring list"
  details_stats :: commit_stats

definition files_with :: "jsstring \<Rightarrow> gh_file list \<Rightarrow> jsstring list" where
  "files_with s fs = map filename (filter (\<lambda>f. status f = s) fs)"

definition stat_or_0 :: "gh_stats option \<Rightarrow> (gh_stats \<Rightarrow> nat option) \<Rightarrow> nat" where
  "stat_or_0 s field =
     (case s of None \<Rightarrow> 0 | Some t \<Rightarrow> (case field t of None \<Rightarrow> 0 | Some n \<Rightarrow> n))"

text \<open>\<open>fetchCommitDetails\<close>: a failed request is caught and answered with empty details.\<close>

definition fetchCommitDetails :: "error + gh_detail \<Rightarrow> commit_details" where
  "fetchCommitDetails response =
     (case response of
        Inr d \<Rightarrow>
          (let fs = or_empty (files d)
           in \<lparr>details_added = files_with (js ''added'') fs,
               details_modified = files_with (js ''modified'') fs,
               details_removed = files_with (js ''removed'') fs,
               details_stats =
                 \<lparr>additions = stat_or_0 (detail_stats d) gh_additions,
                  deletions = stat_or_0 (detail_stats d) gh_deletions,
                  total = stat_or_0 (detail_stats d) gh_total\<rparr>\<rparr>)
      | Inl e \<Rightarrow>
          \<lparr>details_added = [], details_modified = [], details_removed = [],
           details_stats = \<lparr>additions = 0, deletions = 0, total = 0\<rparr>\<rparr>)"

section \<open>commit-tracker.js\<close>

text \<open>
  The tracker keeps one JSON file. The file system is modelled by what the code can
  observe of it: whether the data directory exists, whether creating it and writing the
  file succeed, and the parsed content of the file (\<open>None\<close> when it is missing or does
  not parse, which the code treats alike). \<open>JSON.stringify\<close> followed by \<open>JSON.parse\<close>
  gives back the strings written, so the file holds the record itself.
\<close>

record metadata =
  meta_author :: jsstring
  meta_message :: jsstring
  meta_timestamp :: jsstring

record tracker_data =
  lastCommitSha :: jsstring
  lastUpdated :: jsstring
  metadata :: metadata

record tracker_fs =
  dir_exists :: bool
  can_mkdir :: bool
  can_write :: bool
  tracker_file :: "tracker_data option"

text \<open>
  The second argument of \<open>updateLastSeenCommit\<close>: left out (the default \<open>{}\<close> applies),
  an object with some of the three properties, or, as one caller passes it, a string
  (on which each of the three property reads gives \<open>undefined\<close>).
\<close>

record metadata_arg =
  arg_author :: "jsstring option"
  arg_message :: "jsstring option"
  arg_timestamp :: "jsstring option"

datatype metadata_value = NoMetadata | MetadataObject metadata_arg | StringValue jsstring

definition metadata_properties :: "metadata_value \<Rightarrow> metadata_arg" where
  "metadata_properties v =
     (case v of
        MetadataObject m \<Rightarrow> m
      | NoMetadata \<Rightarrow> \<lparr>arg_author = None, arg_message = None, arg_timestamp = None\<rparr>
      | StringValue s \<Rightarrow> \<lparr>arg_author = None, arg_message = None, arg_timestamp = None\<rparr>)"

text \<open>\<open>x || d\<close> on a possibly missing string.\<close>

definition or_else :: "jsstring option \<Rightarrow> jsstring \<Rightarrow> jsstring" where
  "or_else x d = (case x of None \<Rightarrow> d | Some s \<Rightarrow> if s = [] then d else s)"

definition ensureDataDirectory :: "tracker_fs \<Rightarrow> error + tracker_fs" where
  "ensureDataDirectory fs =
     (if dir_exists fs then Inr fs
      else if can_mkdir fs then Inr (fs\<lparr>dir_exists := True\<rparr>)
      else Inl FsError)"

definition getLastSeenCommit :: "tracker_fs \<Rightarrow> jsstring option \<times> tracker_fs" where
  "getLastSeenCommit fs =
     (case ensureDataDirectory fs of
        Inl e \<Rightarrow> (None, fs)
      | Inr fs1 \<Rightarrow>
          (case tracker_file fs1 of
             None \<Rightarrow> (None, fs1)
           | Some parsed \<Rightarrow>
               (if lastCommitSha parsed = [] then None else Some (lastCommitSha parsed), fs1)))"

text \<open>
  \<open>updateLastSeenCommit\<close>. \<open>now1\<close> and \<open>now2\<close> are the two readings of the clock
  (\<open>new Date().toISOString()\<close>). An error is logged and thrown again: the result is then
  \<open>Inl\<close> with the file system as the failure left it.
\<close>

definition updateLastSeenCommit ::
  "jsstring \<Rightarrow> jsstring \<Rightarrow> tracker_fs \<Rightarrow> jsstring \<Rightarrow> metadata_value \<Rightarrow>
   error \<times> tracker_fs + tracker_fs" where
  "updateLastSeenCommit now1 now2 fs commitSha metadata_v =
     (case ensureDataDirectory fs of
        Inl e \<Rightarrow> Inl (e, fs)
      | Inr fs1 \<Rightarrow>
          (let m = metadata_properties metadata_v;
               data = \<lparr>lastCommitSha = commitSha,
                       lastUpdated = now1,
                       metadata = \<lparr>meta_author = or_else (arg_author m) (js ''unknown''),
                                   meta_message = or_else (arg_message m) (js ''unknown''),
                                   meta_timestamp = or_else (arg_timestamp m) now2\<rparr>\<rparr>
           in if can_write fs1 then Inr (fs1\<lparr>tracker_file := Some data\<rparr>)
              else Inl (FsError, fs1)))"

record tracking_info =
  hasTracking :: bool
  info_lastCommitSha :: "jsstring option"
  info_lastUpdated :: "jsstring option"
  info_metadata :: "metadata option"

definition getTrackingInfo :: "tracker_fs \<Rightarrow> tracking_info \<times> tracker_fs" where
  "getTrackingInfo fs =
     (let none = \<lparr>hasTracking = False, info_lastCommitSha = None,
                  info_lastUpdated = None, info_metadata = None\<rparr>
      in case ensureDataDirectory fs of
           Inl e \<Rightarrow> (none, fs)
         | Inr fs1 \<Rightarrow>
             (case tracker_file fs1 of
                None \<Rightarrow> (none, fs1)
              | Some parsed \<Rightarrow>
                  (\<lparr>hasTracking = True,
                    info_lastCommitSha = Some (lastCommitSha parsed),
                    info_lastUpdated = Some (lastUpdated parsed),
                    info_metadata = Some (metadata parsed)\<rparr>, fs1)))"

section \<open>bot.js\<close>

text \<open>A message of the destination channel, as far as the code reads it.\<close>

record message =
  msg_author_id :: jsstring
  embeds :: "embed list"

text \<open>
  The loop of \<open>getLastCommitFromChannel\<close> over the fetched messages, most recent first:
  the first message of the bot's own with an embed whose footer text is non-empty
  decides.
\<close>

fun scan_messages :: "jsstring \<Rightarrow> message list \<Rightarrow> jsstring option" where
  "scan_messages me [] = None"
| "scan_messages me (m # ms) =
     (if msg_author_id m = me \<and> length (embeds m) > 0 then
        (case footer (embeds m ! 0) of
           None \<Rightarrow> scan_messages me ms
         | Some text \<Rightarrow>
             if text = [] then scan_messages me ms
             else Some (js_split text separator ! 0))
      else scan_messages me ms)"

text \<open>
  \<open>getLastCommitFromChannel\<close>. The second argument is what the channel lookup and the
  history request give: \<open>None\<close> when the channel is not in the cache, an error when the
  request fails, otherwise the fetched messages.
\<close>

definition getLastCommitFromChannel ::
  "jsstring \<Rightarrow> (error + message list) option \<Rightarrow> jsstring option" where
  "getLastCommitFromChannel me channel =
     (case channel of
        None \<Rightarrow> None
      | Some (Inl e) \<Rightarrow> None
      | Some (Inr messages) \<Rightarrow> scan_messages me messages)"

text \<open>
  What one polling cycle meets outside the program: the answers of the two GitHub
  endpoints, whether the channel is in the cache, whether a send or the history request
  fails, the bot's user id, the date formatting of the process and the clock.
\<close>

record env =
  commits_response :: "error + gh_commit list"
  details_response :: "jsstring \<Rightarrow> error + gh_detail"
  channel_cached :: bool
  send_error :: "embed \<Rightarrow> error option"
  history_error :: "error option"
  client_user :: jsstring
  toLocale :: "jsstring \<Rightarrow> jsstring"
  now :: jsstring

text \<open>
  What a cycle reads and writes: the tracker's file system and the messages of the
  destination channel, most recent first.
\<close>

record world =
  tracker :: tracker_fs
  channel_messages :: "message list"

datatype outcome = Completed | Caught error

text \<open>\<open>{ ...commit, ...details }\<close>: the details replace the four properties they carry.\<close>

definition spread :: "commit \<Rightarrow> commit_details \<Rightarrow> commit" where
  "spread c d =
     c\<lparr>added := Some (details_added d), modified := Some (details_modified d),
       removed := Some (details_removed d), stats := details_stats d\<rparr>"

definition fakePayload :: "jsstring \<Rightarrow> commit \<Rightarrow> payload" where
  "fakePayload name enhancedCommit =
     \<lparr>commits = Some [enhancedCommit], repository = \<lparr>repo_name = name\<rparr>,
      ref = Some (js ''refs/heads/main'')\<rparr>"

text \<open>
  The \<open>for (const commit of newCommits)\<close> loop of \<open>pollForCommits\<close>: each commit is
  enriched, formatted and sent. A send that fails throws out of the loop; the messages
  sent before it stay in the channel.
\<close>

fun notify_all ::
  "env \<Rightarrow> jsstring \<Rightarrow> commit list \<Rightarrow> message list \<Rightarrow> error option \<times> message list" where
  "notify_all e name [] ch = (None, ch)"
| "notify_all e name (c # cs) ch =
     (let details = fetchCommitDetails (details_response e (sha c));
          enhancedCommit = spread c details
      in case createCommitEmbed (toLocale e) (fakePayload name enhancedCommit) of
           None \<Rightarrow> notify_all e name cs ch
         | Some em \<Rightarrow>
             (case send_error e em of
                Some err \<Rightarrow> (Some err, ch)
              | None \<Rightarrow>
                  notify_all e name cs
                    (\<lparr>msg_author_id = client_user e, embeds = [em]\<rparr> # ch)))"

text \<open>
  \<open>pollForCommits\<close> of the one-repository \<open>bot.js\<close>: the cursor is read from the
  tracker and written back after the loop. Every error is caught at the end of the
  cycle.
\<close>

definition pollForCommits :: "env \<Rightarrow> world \<Rightarrow> outcome \<times> world" where
  "pollForCommits e w =
     (case getLastSeenCommit (tracker w) of
        (lastSeen, fs1) \<Rightarrow>
          (let newCommits = checkForNewCommits (commits_response e) lastSeen;
               w1 = w\<lparr>tracker := fs1\<rparr>
           in if length newCommits > 0 then
                if channel_cached e then
                  (case notify_all e (js ''berghain-bot'') newCommits (channel_messages w1) of
                     (Some err, ch) \<Rightarrow> (Caught err, w1\<lparr>channel_messages := ch\<rparr>)
                   | (None, ch) \<Rightarrow>
                       (case updateLastSeenCommit (now e) (now e) (tracker w1)
                               (sha (newCommits ! (length newCommits - 1))) NoMetadata of
                          Inl (err, fs2) \<Rightarrow>
                            (Caught err, \<lparr>tracker = fs2, channel_messages = ch\<rparr>)
                        | Inr fs2 \<Rightarrow>
                            (Completed, \<lparr>tracker = fs2, channel_messages = ch\<rparr>)))
                else (Completed, w1)
              else (Completed, w1)))"

text \<open>One entry of \<open>REPO_CONFIG\<close>.\<close>

record repo_config =
  owner :: jsstring
  repo :: jsstring
  channelId :: jsstring
  displayName :: jsstring

text \<open>
  \<open>pollForCommits\<close> of the many-repository \<open>bot.js\<close>: the cursor is read from the
  footer of the bot's last message in the channel (at most ten messages are fetched),
  and the tracker is called with the repository name first and the commit id second.
\<close>

definition pollForCommits_multi :: "repo_config \<Rightarrow> env \<Rightarrow> world \<Rightarrow> outcome \<times> world" where
  "pollForCommits_multi cfg e w =
     (let lastSeen =
            getLastCommitFromChannel (client_user e)
              (if channel_cached e then
                 Some (case history_error e of
                         Some err \<Rightarrow> Inl err
                       | None \<Rightarrow> Inr (take 10 (channel_messages w)))
               else None);
          newCommits = checkForNewCommits (commits_response e) lastSeen
      in if length newCommits > 0 then
           if channel_cached e then
             (case notify_all e (displayName cfg) newCommits (channel_messages w) of
                (Some err, ch) \<Rightarrow> (Caught err, w\<lparr>channel_messages := ch\<rparr>)
              | (None, ch) \<Rightarrow>
                  (case updateLastSeenCommit (now e) (now e) (tracker w) (repo cfg)
                          (StringValue (sha (newCommits ! (length newCommits - 1)))) of
                     Inl (err, fs2) \<Rightarrow>
                       (Caught err, \<lparr>tracker = fs2, channel_messages = ch\<rparr>)
                   | Inr fs2 \<Rightarrow>
                       (Completed, \<lparr>tracker = fs2, channel_messages = ch\<rparr>)))
           else (Completed, w)
         else (Completed, w))"

section \<open>Example data\<close>

text \<open>Five commit ids, a commit of the list endpoint and a commit with given path arrays.\<close>

definition sha1 :: jsstring where
  "sha1 = js ''a1b2c3d4e5f60718293a4b5c6d7e8f9012345671''"

definition sha2 :: jsstring where
  "sha2 = js ''b2c3d4e5f60718293a4b5c6d7e8f90123456782a''"

definition sha3 :: jsstring where
  "sha3 = js ''c3d4e5f60718293a4b5c6d7e8f90123456783b2a''"

definition sha4 :: jsstring where
  "sha4 = js ''d4e5f60718293a4b5c6d7e8f90123456784c3b2a''"

definition sha5 :: jsstring where
  "sha5 = js ''e5f60718293a4b5c6d7e8f90123456785d4c3b2a''"

definition example_gh_commit :: "jsstring \<Rightarrow> gh_commit" where
  "example_gh_commit s =
     \<lparr>gh_sha = s, gh_message = js ''Fix bug'', gh_author_name = js ''alice'',
      gh_author_email = js ''alice@example.com'', gh_author_date = js ''2025-09-01T10:00:00Z'',
      gh_html_url = js ''https://github.com/o/r/commit/'' @ s, gh_avatar_url = None\<rparr>"

definition example_commit :: "jsstring list \<Rightarrow> jsstring list \<Rightarrow> jsstring list \<Rightarrow> commit" where
  "example_commit a m r =
     (transformCommitData (example_gh_commit sha1))
       \<lparr>added := Some a, modified := Some m, removed := Some r\<rparr>"

definition twelve_paths :: "jsstring list" where
  "twelve_paths = map js [''a.js'', ''b.js'', ''c.js'', ''d.js'', ''e.js'', ''f.js'', ''g.js'',
                          ''h.js'', ''i.js'', ''j.js'', ''k.js'', ''l.js'']"

text \<open>
  A cycle's surroundings in which the channel is cached and every send succeeds, with
  the given answers of the two GitHub endpoints.
\<close>

definition example_env :: "error + gh_commit list \<Rightarrow> (jsstring \<Rightarrow> error + gh_detail) \<Rightarrow> env" where
  "example_env response details =
     \<lparr>commits_response = response,
      details_response = details,
      channel_cached = True,
      send_error = (\<lambda>em. None),
      history_error = None,
      client_user = js ''1400000000000000001'',
      toLocale = (\<lambda>t. js ''9/1/2025, 10:00:00 AM''),
      now = js ''2025-09-01T10:03:05.000Z''\<rparr>"

text \<open>A push of two commits, as the webhook delivers it.\<close>

definition example_push :: payload where
  "example_push =
     \<lparr>commits = Some [example_commit [js ''a.js'', js ''b.js''] [] [js ''c.js''],
                     (example_commit [] [js ''d.js''] [])
                       \<lparr>message := js ''Tune parser'' @ [newline] @ js ''Details''\<rparr>],
      repository = \<lparr>repo_name = js ''berghain-bot''\<rparr>,
      ref = Some (js ''refs/heads/main'')\<rparr>"

text \<open>
  A fresh tracker (no data directory yet, nothing stored), an empty channel, the first
  entry of \<open>REPO_CONFIG\<close>, a successful detail answer, and a cycle whose window holds
  two commits.
\<close>

definition example_fs :: tracker_fs where
  "example_fs = \<lparr>dir_exists = False, can_mkdir = True, can_write = True, tracker_file = None\<rparr>"

definition example_timestamp :: jsstring where
  "example_timestamp = js ''2025-09-01T10:00:00Z''"

definition example_details :: "jsstring \<Rightarrow> error + gh_detail" where
  "example_details s =
     Inr \<lparr>files = Some [\<lparr>status = js ''added'', filename = js ''README.md''\<rparr>],
          detail_stats = Some \<lparr>gh_additions = Some 3, gh_deletions = None, gh_total = Some 3\<rparr>\<rparr>"

definition example_config :: repo_config where
  "example_config =
     \<lparr>owner = js ''OMGLASERSPEWPEWPEW'', repo = js ''berghain-bot'',
      channelId = js ''1412917309328195644'', displayName = js ''Berghain Bot''\<rparr>"

definition example_world :: world where
  "example_world = \<lparr>tracker = example_fs, channel_messages = []\<rparr>"

definition example_cycle_env :: env where
  "example_cycle_env =
     example_env (Inr [example_gh_commit sha2, example_gh_commit sha1]) example_details"

section \<open>Facts about the string operations\<close>

lemma split_from_single_first:
  "split_from [d] cur s ! 0 = cur @ takeWhile (\<lambda>c. c \<noteq> d) s"
  by (induction s arbitrary: cur) auto

lemma number_toString_digits: "set (number_toString n) \<subseteq> {48..57}"
proof (induction n rule: number_toString.induct)
  case (1 n)
  show ?case
  proof (cases "n < 10")
    case True
    then show ?thesis by (simp add: number_toString.simps)
  next
    case False
    have "n mod 10 < 10" by simp
    then have "48 + n mod 10 \<in> {48..57}" by (simp del: mod_less_divisor)
    with False 1 show ?thesis by (subst number_toString.simps) simp
  qed
qed

lemma join_Cons: "ps \<noteq> [] \<Longrightarrow> join (p # ps) sep = p @ sep @ join ps sep"
  by (cases ps) auto

lemma split_from_no_sep:
  "d \<notin> set p \<Longrightarrow> split_from [d] cur p = [cur @ p]"
  by (induction p arbitrary: cur) auto

lemma split_from_piece:
  "d \<notin> set p \<Longrightarrow> split_from [d] cur (p @ d # rest) = (cur @ p) # split_from [d] [] rest"
  by (induction p arbitrary: cur) auto

lemma split_from_join:
  "ps \<noteq> [] \<Longrightarrow> (\<And>p. p \<in> set ps \<Longrightarrow> d \<notin> set p) \<Longrightarrow>
   split_from [d] cur (join ps [d]) = (cur @ hd ps) # tl ps"
proof (induction ps "[d]" arbitrary: cur rule: join.induct)
  case 1
  then show ?case by simp
next
  case (2 p)
  then show ?case by (simp add: split_from_no_sep)
next
  case (3 p q ps)
  have "d \<notin> set p" using 3 by simp
  then have "split_from [d] cur (join (p # q # ps) [d]) = (cur @ p) # split_from [d] [] (join (q # ps) [d])"
    using split_from_piece[of d p cur "join (q # ps) [d]"] by simp
  also have "split_from [d] [] (join (q # ps) [d]) = q # ps"
    using 3 by simp
  finally show ?case by simp
qed

lemma js_split_join:
  "ps \<noteq> [] \<Longrightarrow> (\<And>p. p \<in> set ps \<Longrightarrow> d \<notin> set p) \<Longrightarrow> js_split (join ps [d]) [d] = ps"
  using split_from_join [of ps d "[]"] by (simp add: js_split_def)

lemma join_snoc: "ps \<noteq> [] \<Longrightarrow> join (ps @ [q]) sep = join ps sep @ sep @ q"
  by (induction ps sep rule: join.induct) auto

section \<open>The message formatter\<close>

text \<open>
  C6. The formatted title is computed from the first line of the message, the code units
  before the first newline. A first line of more than 100 code units is rendered as its
  first 97 code units followed by the three-character marker \<open>...\<close>, 100 code units in
  all; a first line of at most 100 code units is returned unchanged.
\<close>

theorem formatCommitMessage_title:
  "(length (takeWhile (\<lambda>c. c \<noteq> newline) msg) > 100 \<longrightarrow>
      formatCommitMessage msg = take 97 (takeWhile (\<lambda>c. c \<noteq> newline) msg) @ js ''...'' \<and>
      length (formatCommitMessage msg) = 100) \<and>
   (length (takeWhile (\<lambda>c. c \<noteq> newline) msg) \<le> 100 \<longrightarrow>
      formatCommitMessage msg = takeWhile (\<lambda>c. c \<noteq> newline) msg)"
  by (simp add: formatCommitMessage_def js_split_def split_from_single_first
      substring0_def Let_def js_def)

theorem formatCommitMessage_title_witness:
  "length (takeWhile (\<lambda>c. c \<noteq> newline) (replicate 101 97)) > 100 \<and>
   formatCommitMessage (replicate 101 97) = replicate 97 97 @ js ''...'' \<and>
   length (formatCommitMessage (replicate 101 97)) = 100 \<and>
   length (takeWhile (\<lambda>c. c \<noteq> newline) (js ''Fix bug'' @ [newline] @ js ''Details'')) \<le> 100 \<and>
   formatCommitMessage (js ''Fix bug'' @ [newline] @ js ''Details'') = js ''Fix bug''"
  using formatCommitMessage_title [of "replicate 101 97"]
    formatCommitMessage_title [of "js ''Fix bug'' @ [newline] @ js ''Details''"]
  by (simp add: newline_def js_def)

text \<open>
  C7. The change string of a stats record is \<open>No changes\<close> when the three counts are
  zero; otherwise it is the terms \<open>+A\<close>, \<open>-R\<close>, \<open>~M\<close> of the non-zero counts, in this
  order, joined by single spaces. When nothing was removed or modified the string holds
  neither a \<open>-\<close> nor a \<open>~\<close>.
\<close>

theorem formatChangeStats_terms:
  "formatChangeStats st =
     (if stats_added st = 0 \<and> stats_removed st = 0 \<and> stats_modified st = 0
      then js ''No changes''
      else join (map (\<lambda>(sign, n). sign @ number_toString n)
                  (filter (\<lambda>(sign, n). n > 0)
                     [(js ''+'', stats_added st), (js ''-'', stats_removed st),
                      (js ''~'', stats_modified st)]))
             (js '' '')) \<and>
   (stats_removed st = 0 \<and> stats_modified st = 0 \<longrightarrow>
      of_char CHR ''-'' \<notin> set (formatChangeStats st) \<and>
      of_char CHR ''~'' \<notin> set (formatChangeStats st))"
proof -
  have digits: "45 \<notin> set (number_toString n) \<and> 126 \<notin> set (number_toString n)" for n
    using number_toString_digits [of n] by auto
  show ?thesis
    by (auto simp add: formatChangeStats_def Let_def digits) (simp_all add: js_def)
qed

theorem formatChangeStats_terms_witness:
  "formatChangeStats
     \<lparr>stats_added = 3, stats_removed = 0, stats_modified = 12, stats_total = 15\<rparr> =
     js ''+3 ~12'' \<and>
   formatChangeStats
     \<lparr>stats_added = 0, stats_removed = 0, stats_modified = 0, stats_total = 0\<rparr> =
     js ''No changes'' \<and>
   formatChangeStats
     \<lparr>stats_added = 4, stats_removed = 0, stats_modified = 0, stats_total = 4\<rparr> =
     js ''+4'' \<and>
   of_char CHR ''-'' \<notin> set (formatChangeStats
     \<lparr>stats_added = 4, stats_removed = 0, stats_modified = 0, stats_total = 4\<rparr>) \<and>
   of_char CHR ''~'' \<notin> set (formatChangeStats
     \<lparr>stats_added = 4, stats_removed = 0, stats_modified = 0, stats_total = 4\<rparr>)"
  using
    formatChangeStats_terms
      [of "\<lparr>stats_added = 3, stats_removed = 0, stats_modified = 12, stats_total = 15\<rparr>"]
    formatChangeStats_terms
      [of "\<lparr>stats_added = 0, stats_removed = 0, stats_modified = 0, stats_total = 0\<rparr>"]
    formatChangeStats_terms
      [of "\<lparr>stats_added = 4, stats_removed = 0, stats_modified = 0, stats_total = 4\<rparr>"]
  by (simp add: js_def number_toString.simps)

text \<open>
  C8. The entries of the file list are the added paths prefixed with \<open>+\<close>, then the
  modified paths prefixed with \<open>~\<close>, then the removed paths prefixed with \<open>-\<close> (each
  prefix followed by a space). No entry renders as \<open>No files changed\<close>. Up to ten
  entries render as a \<open>diff\<close> code block with one entry per line. More than ten render
  as the block of the first ten entries followed by the line \<open>... and N more\<close>, \<open>N\<close>
  the number of entries left out; when no path holds a newline, these are exactly the
  lines of the rendering between the opening fence and the closing one.
\<close>

theorem formatFileChanges_rendering:
  "allFiles c =
     map (\<lambda>f. js ''+ '' @ f) (or_empty (added c)) @
     map (\<lambda>f. js ''~ '' @ f) (or_empty (modified c)) @
     map (\<lambda>f. js ''- '' @ f) (or_empty (removed c)) \<and>
   (allFiles c = [] \<longrightarrow> formatFileChanges c = js ''No files changed'') \<and>
   (0 < length (allFiles c) \<and> length (allFiles c) \<le> 10 \<longrightarrow>
      formatFileChanges c =
        join ((backticks @ js ''diff'') # butlast (allFiles c) @ [last (allFiles c) @ backticks])
          [newline]) \<and>
   (10 < length (allFiles c) \<longrightarrow>
      length (take 10 (allFiles c)) = 10 \<and>
      formatFileChanges c =
        join ((backticks @ js ''diff'') # take 10 (allFiles c) @
              [js ''... and '' @ number_toString (length (allFiles c) - 10) @ js '' more'' @
               backticks])
          [newline]) \<and>
   (10 < length (allFiles c) \<and>
    (\<forall>f \<in> set (or_empty (added c) @ or_empty (modified c) @ or_empty (removed c)).
       newline \<notin> set f) \<longrightarrow>
      js_split (formatFileChanges c) [newline] =
        (backticks @ js ''diff'') # take 10 (allFiles c) @
        [js ''... and '' @ number_toString (length (allFiles c) - 10) @ js '' more'' @
         backticks])"
proof -
  let ?more = "js ''... and '' @ number_toString (length (allFiles c) - 10) @ js '' more'' @
               backticks"
  let ?lines = "(backticks @ js ''diff'') # take 10 (allFiles c) @ [?more]"
  have a: "allFiles c = [] \<longrightarrow> formatFileChanges c = js ''No files changed''"
    by (simp add: formatFileChanges_def)
  have b: "formatFileChanges c =
        join ((backticks @ js ''diff'') # butlast (allFiles c) @ [last (allFiles c) @ backticks])
          [newline]" if "0 < length (allFiles c)" "length (allFiles c) \<le> 10"
  proof -
    from that have ne: "allFiles c \<noteq> []" by auto
    have "join (allFiles c) [newline] @ backticks
          = join (butlast (allFiles c) @ [last (allFiles c) @ backticks]) [newline]"
    proof (cases "butlast (allFiles c) = []")
      case True
      then have "allFiles c = [last (allFiles c)]" using ne
        by (metis append_butlast_last_id append_Nil)
      then show ?thesis using True by (metis append_Nil join.simps(2))
    next
      case False
      have "join (allFiles c) [newline] =
            join (butlast (allFiles c) @ [last (allFiles c)]) [newline]"
        using ne by simp
      then show ?thesis using False by (simp add: join_snoc del: append_butlast_last_id)
    qed
    then show ?thesis using that ne
      by (simp add: formatFileChanges_def join_Cons)
  qed
  have c: "formatFileChanges c = join ?lines [newline]" if "10 < length (allFiles c)"
  proof -
    from that have ne: "take 10 (allFiles c) \<noteq> []" by auto
    show ?thesis using that ne
      by (simp add: formatFileChanges_def join_Cons join_snoc Let_def)
  qed
  have d: "allFiles c =
     map (\<lambda>f. js ''+ '' @ f) (or_empty (added c)) @
     map (\<lambda>f. js ''~ '' @ f) (or_empty (modified c)) @
     map (\<lambda>f. js ''- '' @ f) (or_empty (removed c))"
    by (simp add: allFiles_def)
  have e: "length (take 10 (allFiles c)) = 10" if "10 < length (allFiles c)"
    using that by simp
  have f: "js_split (formatFileChanges c) [newline] = ?lines"
    if long: "10 < length (allFiles c)"
      and paths: "\<forall>f \<in> set (or_empty (added c) @ or_empty (modified c) @ or_empty (removed c)).
                   newline \<notin> set f"
  proof -
    have "js_split (join ?lines [newline]) [newline] = ?lines"
    proof (rule js_split_join)
      show "?lines \<noteq> []" by simp
      fix p assume p: "p \<in> set ?lines"
      have dig: "newline \<notin> set (number_toString (length (allFiles c) - 10))"
        using number_toString_digits [of "length (allFiles c) - 10"]
        by (auto simp add: newline_def)
      have entries: "newline \<notin> set q" if "q \<in> set (allFiles c)" for q
        using that paths by (auto simp add: allFiles_def js_def newline_def)
      from p consider "p = backticks @ js ''diff''" | "p \<in> set (take 10 (allFiles c))"
        | "p = ?more" by auto
      then show "newline \<notin> set p"
      proof cases
        case 1
        then show ?thesis by (simp add: backticks_def js_def newline_def)
      next
        case 2
        then have "p \<in> set (allFiles c)" by (rule in_set_takeD)
        then show ?thesis by (rule entries)
      next
        case 3
        then show ?thesis using dig by (simp add: backticks_def js_def newline_def)
      qed
    qed
    then show ?thesis using c [OF long] by simp
  qed
  from a b c e f show ?thesis unfolding d [symmetric] by blast
qed

theorem formatFileChanges_rendering_witness:
  "allFiles (example_commit [] [] []) = [] \<and>
   formatFileChanges (example_commit [] [] []) = js ''No files changed'' \<and>
   0 < length (allFiles (example_commit [js ''a.js''] [js ''b.js''] [js ''c.js''])) \<and>
   length (allFiles (example_commit [js ''a.js''] [js ''b.js''] [js ''c.js''])) \<le> 10 \<and>
   formatFileChanges (example_commit [js ''a.js''] [js ''b.js''] [js ''c.js'']) =
     join [backticks @ js ''diff'', js ''+ a.js'', js ''~ b.js'', js ''- c.js'' @ backticks]
       [newline] \<and>
   length (allFiles (example_commit twelve_paths [] [])) = 12 \<and>
   formatFileChanges (example_commit twelve_paths [] []) =
     join ((backticks @ js ''diff'') # map (\<lambda>f. js ''+ '' @ f) (take 10 twelve_paths) @
           [js ''... and 2 more'' @ backticks]) [newline]"
proof -
  have a: "allFiles (example_commit [] [] []) = []"
    by (simp add: allFiles_def example_commit_def or_empty_def)
  have b: "allFiles (example_commit [js ''a.js''] [js ''b.js''] [js ''c.js'']) =
             [js ''+ a.js'', js ''~ b.js'', js ''- c.js'']"
    by (simp add: allFiles_def example_commit_def or_empty_def js_def)
  have c: "allFiles (example_commit twelve_paths [] []) = map (\<lambda>f. js ''+ '' @ f) twelve_paths"
    by (simp add: allFiles_def example_commit_def or_empty_def)
  have n: "js ''... and '' @ number_toString 2 @ js '' more'' @ backticks =
           js ''... and 2 more'' @ backticks"
    by (simp add: number_toString.simps js_def)
  have l: "length twelve_paths = 12" by (simp add: twelve_paths_def)
  have r1: "formatFileChanges (example_commit [] [] []) = js ''No files changed''"
    using formatFileChanges_rendering
      [of "example_commit [] [] []", THEN conjunct2, THEN conjunct1] a
    by simp
  have r2: "formatFileChanges (example_commit [js ''a.js''] [js ''b.js''] [js ''c.js'']) =
     join [backticks @ js ''diff'', js ''+ a.js'', js ''~ b.js'', js ''- c.js'' @ backticks]
       [newline]"
    using formatFileChanges_rendering
      [of "example_commit [js ''a.js''] [js ''b.js''] [js ''c.js'']",
        THEN conjunct2, THEN conjunct2, THEN conjunct1]
    unfolding b by simp
  have r3: "formatFileChanges (example_commit twelve_paths [] []) =
     join ((backticks @ js ''diff'') # map (\<lambda>f. js ''+ '' @ f) (take 10 twelve_paths) @
           [js ''... and 2 more'' @ backticks]) [newline]"
    using formatFileChanges_rendering
      [of "example_commit twelve_paths [] []",
        THEN conjunct2, THEN conjunct2, THEN conjunct2, THEN conjunct1]
    unfolding c by (simp add: l n take_map)
  show ?thesis using a r1 r2 r3 unfolding b c by (simp add: l)
qed

lemma fold_add_commit:
  "fold add_commit cs (a, r, m) =
     (a + sum_list (map (\<lambda>c. length_or_0 (added c)) cs),
      r + sum_list (map (\<lambda>c. length_or_0 (removed c)) cs),
      m + sum_list (map (\<lambda>c. length_or_0 (modified c)) cs))"
  by (induction cs arbitrary: a r m) (simp_all add: add_commit_def)

lemma calculateTotalChanges_sums:
  "calculateTotalChanges cs =
     \<lparr>stats_added = sum_list (map (\<lambda>c. length_or_0 (added c)) cs),
      stats_removed = sum_list (map (\<lambda>c. length_or_0 (removed c)) cs),
      stats_modified = sum_list (map (\<lambda>c. length_or_0 (modified c)) cs),
      stats_total = sum_list (map (\<lambda>c. length_or_0 (added c)) cs) +
                    sum_list (map (\<lambda>c. length_or_0 (removed c)) cs) +
                    sum_list (map (\<lambda>c. length_or_0 (modified c)) cs)\<rparr>"
  by (simp add: calculateTotalChanges_def fold_add_commit)

text \<open>
  C10. For a payload with a non-empty commit list (in particular one of several commits),
  the embed exists and its color, url, author block, description, footer, timestamp and
  file list are those of the last commit of the list, while the \<open>Changes\<close> field is the
  change string of the added, removed and modified path counts summed over all commits.
  The other commits enter in no other way: any other non-empty commit list with the same
  last commit and the same three sums gives the same embed.
\<close>

theorem createCommitEmbed_last_commit_and_totals:
  assumes "commits p = Some cs" and "cs \<noteq> []"
  shows "\<exists>em. createCommitEmbed toLocaleString p = Some em \<and>
           color em = getCommitColor (last cs) \<and>
           embed_url em = url (last cs) \<and>
           embed_author_name (embed_author em) = author_name (author (last cs)) \<and>
           icon_url (embed_author em) =
             (case avatar (author (last cs)) of
                None \<Rightarrow> None | Some a \<Rightarrow> if a = [] then None else Some a) \<and>
           description em = formatCommitMessage (message (last cs)) \<and>
           footer em = Some (take 7 (commit_id (last cs)) @ separator @
                             toLocaleString (timestamp (last cs))) \<and>
           embed_timestamp em = timestamp (last cs) \<and>
           length (embed_fields em) = 3 \<and>
           field_value (embed_fields em ! 2) = formatFileChanges (last cs) \<and>
           field_value (embed_fields em ! 1) =
             formatChangeStats
               \<lparr>stats_added = sum_list (map (\<lambda>c. length_or_0 (added c)) cs),
                stats_removed = sum_list (map (\<lambda>c. length_or_0 (removed c)) cs),
                stats_modified = sum_list (map (\<lambda>c. length_or_0 (modified c)) cs),
                stats_total = sum_list (map (\<lambda>c. length_or_0 (added c)) cs) +
                              sum_list (map (\<lambda>c. length_or_0 (removed c)) cs) +
                              sum_list (map (\<lambda>c. length_or_0 (modified c)) cs)\<rparr> \<and>
           (\<forall>cs'. cs' \<noteq> [] \<and> last cs' = last cs \<and>
                  sum_list (map (\<lambda>c. length_or_0 (added c)) cs') =
                    sum_list (map (\<lambda>c. length_or_0 (added c)) cs) \<and>
                  sum_list (map (\<lambda>c. length_or_0 (removed c)) cs') =
                    sum_list (map (\<lambda>c. length_or_0 (removed c)) cs) \<and>
                  sum_list (map (\<lambda>c. length_or_0 (modified c)) cs') =
                    sum_list (map (\<lambda>c. length_or_0 (modified c)) cs) \<longrightarrow>
                  createCommitEmbed toLocaleString (p\<lparr>commits := Some cs'\<rparr>) = Some em)"
proof -
  have nth: "xs ! (length xs - Suc 0) = last xs" if "xs \<noteq> []" for xs :: "commit list"
    using that by (simp add: last_conv_nth)
  show ?thesis
    using assms
    by (simp add: createCommitEmbed_def Let_def nth calculateTotalChanges_sums substring0_def)
qed

theorem createCommitEmbed_last_commit_and_totals_witness:
  "commits example_push =
     Some [example_commit [js ''a.js'', js ''b.js''] [] [js ''c.js''],
           (example_commit [] [js ''d.js''] [])
             \<lparr>message := js ''Tune parser'' @ [newline] @ js ''Details''\<rparr>] \<and>
   (\<exists>em. createCommitEmbed (\<lambda>t. js ''9/1/2025, 10:00:00 AM'') example_push = Some em \<and>
      color em = 0x6f42c1 \<and>
      description em = js ''Tune parser'' \<and>
      footer em = Some (js ''a1b2c3d'' @ separator @ js ''9/1/2025, 10:00:00 AM'') \<and>
      field_value (embed_fields em ! 1) = js ''+2 -1 ~1'' \<and>
      field_value (embed_fields em ! 2) = join [backticks @ js ''diff'', js ''~ d.js'' @ backticks] [newline])"
proof -
  let ?c1 = "example_commit [js ''a.js'', js ''b.js''] [] [js ''c.js'']"
  let ?c2 = "(example_commit [] [js ''d.js''] [])
             \<lparr>message := js ''Tune parser'' @ [newline] @ js ''Details''\<rparr>"
  have a: "commits example_push = Some [?c1, ?c2]" by (simp add: example_push_def)
  have b: "[?c1, ?c2] \<noteq> []" by simp
  from createCommitEmbed_last_commit_and_totals [OF a b, of "\<lambda>t. js ''9/1/2025, 10:00:00 AM''"]
  obtain em where em:
    "createCommitEmbed (\<lambda>t. js ''9/1/2025, 10:00:00 AM'') example_push = Some em"
    "color em = getCommitColor (last [?c1, ?c2])"
    "description em = formatCommitMessage (message (last [?c1, ?c2]))"
    "footer em = Some (take 7 (commit_id (last [?c1, ?c2])) @ separator @ js ''9/1/2025, 10:00:00 AM'')"
    "field_value (embed_fields em ! 2) = formatFileChanges (last [?c1, ?c2])"
    "field_value (embed_fields em ! 1) =
             formatChangeStats
               \<lparr>stats_added = sum_list (map (\<lambda>c. length_or_0 (added c)) [?c1, ?c2]),
                stats_removed = sum_list (map (\<lambda>c. length_or_0 (removed c)) [?c1, ?c2]),
                stats_modified = sum_list (map (\<lambda>c. length_or_0 (modified c)) [?c1, ?c2]),
                stats_total = sum_list (map (\<lambda>c. length_or_0 (added c)) [?c1, ?c2]) +
                              sum_list (map (\<lambda>c. length_or_0 (removed c)) [?c1, ?c2]) +
                              sum_list (map (\<lambda>c. length_or_0 (modified c)) [?c1, ?c2])\<rparr>"
    by (elim conjE exE)
  have c: "getCommitColor ?c2 = 0x6f42c1"
    by (simp add: getCommitColor_def example_commit_def)
  have d: "formatCommitMessage (message ?c2) = js ''Tune parser''"
    by (simp add: formatCommitMessage_def js_split_def split_from_single_first newline_def js_def)
  have f: "take 7 (commit_id ?c2) = js ''a1b2c3d''"
    by (simp add: example_commit_def transformCommitData_def example_gh_commit_def sha1_def js_def)
  have g: "formatFileChanges ?c2 = join [backticks @ js ''diff'', js ''~ d.js'' @ backticks] [newline]"
    by (simp add: formatFileChanges_def allFiles_def example_commit_def or_empty_def js_def)
  have h: "formatChangeStats \<lparr>stats_added = 2, stats_removed = 1, stats_modified = 1, stats_total = 4\<rparr> = js ''+2 -1 ~1''"
    by (simp add: formatChangeStats_def number_toString.simps js_def)
  have sums: "sum_list (map (\<lambda>c. length_or_0 (added c)) [?c1, ?c2]) = 2"
     "sum_list (map (\<lambda>c. length_or_0 (removed c)) [?c1, ?c2]) = 1"
     "sum_list (map (\<lambda>c. length_or_0 (modified c)) [?c1, ?c2]) = 1"
    by (simp_all add: example_commit_def length_or_0_def)
  show ?thesis
    using a em c d f g h unfolding sums by simp
qed

section \<open>The detail enricher\<close>

lemma createCommitEmbed_fakePayload:
  "\<exists>em. createCommitEmbed toLocaleString (fakePayload name c) = Some em \<and>
        footer em = Some (take 7 (commit_id c) @ separator @ toLocaleString (timestamp c))"
  by (simp add: createCommitEmbed_def fakePayload_def Let_def substring0_def)

lemma notify_all_keeps:
  "m \<in> set ch \<Longrightarrow> m \<in> set (snd (notify_all e name cs ch))"
  by (induction cs arbitrary: ch) (auto simp add: Let_def split: option.splits)

lemma notify_all_delivers:
  assumes "c \<in> set cs"
    and "fst (notify_all e name cs ch) = None"
    and "createCommitEmbed (toLocale e)
           (fakePayload name (spread c (fetchCommitDetails (details_response e (sha c))))) = Some em"
  shows "\<lparr>msg_author_id = client_user e, embeds = [em]\<rparr> \<in> set (snd (notify_all e name cs ch))"
  using assms
proof (induction cs arbitrary: ch)
  case Nil
  then show ?case by simp
next
  case (Cons x xs)
  obtain ex where ex: "createCommitEmbed (toLocale e)
           (fakePayload name (spread x (fetchCommitDetails (details_response e (sha x))))) = Some ex"
    using createCommitEmbed_fakePayload by blast
  have sent: "send_error e ex = None"
    using Cons.prems(2) ex by (cases "send_error e ex") (simp_all add: Let_def)
  have step: "notify_all e name (x # xs) ch =
              notify_all e name xs (\<lparr>msg_author_id = client_user e, embeds = [ex]\<rparr> # ch)"
    using ex sent by (simp add: Let_def)
  show ?case
  proof (cases "c = x")
    case True
    with ex Cons.prems(3) have "ex = em" by simp
    then show ?thesis unfolding step by (simp add: notify_all_keeps)
  next
    case False
    with Cons.prems(1) have "c \<in> set xs" by simp
    moreover have "fst (notify_all e name xs (\<lparr>msg_author_id = client_user e, embeds = [ex]\<rparr> # ch)) = None"
      using Cons.prems(2) unfolding step .
    ultimately show ?thesis unfolding step using Cons.IH Cons.prems(3) by blast
  qed
qed

lemma notify_all_completes:
  "(\<And>em. send_error e em = None) \<Longrightarrow> fst (notify_all e name cs ch) = None"
  by (induction cs arbitrary: ch) (auto simp add: Let_def split: option.splits)

text \<open>
  C5. When the detail request for a commit fails, \<open>fetchCommitDetails\<close> returns empty
  added, modified and removed lists and zero stats instead of raising; the embed built
  for the commit exists and shows \<open>No changes\<close> and \<open>No files changed\<close>. The commit is
  still notified: alone in a cycle, the loop posts that embed when the send succeeds;
  and for every batch \<open>cs\<close> of new commits that holds the commit, whenever the loop
  over \<open>cs\<close> completes, that embed is among the messages of the channel. The failed
  request does not fail the loop: when no send fails, the loop completes.
\<close>

theorem enrichment_failure_degrades:
  assumes "details_response e (sha c) = Inl err"
  shows "fetchCommitDetails (details_response e (sha c)) =
           \<lparr>details_added = [], details_modified = [], details_removed = [],
            details_stats = \<lparr>additions = 0, deletions = 0, total = 0\<rparr>\<rparr> \<and>
         (\<exists>em. createCommitEmbed (toLocale e)
                  (fakePayload name (spread c (fetchCommitDetails (details_response e (sha c)))))
                = Some em \<and>
               field_value (embed_fields em ! 1) = js ''No changes'' \<and>
               field_value (embed_fields em ! 2) = js ''No files changed'' \<and>
               (send_error e em = None \<longrightarrow>
                  notify_all e name [c] ch =
                    (None, \<lparr>msg_author_id = client_user e, embeds = [em]\<rparr> # ch)) \<and>
               (c \<in> set cs \<and> fst (notify_all e name cs ch) = None \<longrightarrow>
                  \<lparr>msg_author_id = client_user e, embeds = [em]\<rparr> \<in>
                    set (snd (notify_all e name cs ch)))) \<and>
         ((\<forall>em. send_error e em = None) \<longrightarrow> fst (notify_all e name cs ch) = None)"
proof -
  have d: "fetchCommitDetails (details_response e (sha c)) =
           \<lparr>details_added = [], details_modified = [], details_removed = [],
            details_stats = \<lparr>additions = 0, deletions = 0, total = 0\<rparr>\<rparr>"
    using assms by (simp add: fetchCommitDetails_def)
  obtain em where em: "createCommitEmbed (toLocale e)
                  (fakePayload name (spread c (fetchCommitDetails (details_response e (sha c)))))
                = Some em"
    using createCommitEmbed_fakePayload by blast
  have f: "field_value (embed_fields em ! 1) = js ''No changes''"
          "field_value (embed_fields em ! 2) = js ''No files changed''"
    using em unfolding d
    by (auto simp add: createCommitEmbed_def fakePayload_def spread_def Let_def
      calculateTotalChanges_def add_commit_def length_or_0_def formatChangeStats_def
      formatFileChanges_def allFiles_def or_empty_def)
  have one: "send_error e em = None \<Longrightarrow>
                  notify_all e name [c] ch =
                    (None, \<lparr>msg_author_id = client_user e, embeds = [em]\<rparr> # ch)"
    using em by (simp add: Let_def)
  have batch: "c \<in> set cs \<and> fst (notify_all e name cs ch) = None \<longrightarrow>
                  \<lparr>msg_author_id = client_user e, embeds = [em]\<rparr> \<in>
                    set (snd (notify_all e name cs ch))"
    using notify_all_delivers [of c cs e name ch em] em by blast
  have compl: "(\<forall>em. send_error e em = None) \<longrightarrow> fst (notify_all e name cs ch) = None"
    using notify_all_completes [of e name cs ch] by blast
  have single: "send_error e em = None \<longrightarrow>
                  notify_all e name [c] ch =
                    (None, \<lparr>msg_author_id = client_user e, embeds = [em]\<rparr> # ch)"
    using one by (rule impI)
  show ?thesis
  proof (intro conjI)
    show "fetchCommitDetails (details_response e (sha c)) =
           \<lparr>details_added = [], details_modified = [], details_removed = [],
            details_stats = \<lparr>additions = 0, deletions = 0, total = 0\<rparr>\<rparr>"
      by (rule d)
    show "\<exists>em. createCommitEmbed (toLocale e)
                  (fakePayload name (spread c (fetchCommitDetails (details_response e (sha c)))))
                = Some em \<and>
               field_value (embed_fields em ! 1) = js ''No changes'' \<and>
               field_value (embed_fields em ! 2) = js ''No files changed'' \<and>
               (send_error e em = None \<longrightarrow>
                  notify_all e name [c] ch =
                    (None, \<lparr>msg_author_id = client_user e, embeds = [em]\<rparr> # ch)) \<and>
               (c \<in> set cs \<and> fst (notify_all e name cs ch) = None \<longrightarrow>
                  \<lparr>msg_author_id = client_user e, embeds = [em]\<rparr> \<in>
                    set (snd (notify_all e name cs ch)))"
      by (intro exI [of _ em] conjI) (rule em f single batch)+
    show "(\<forall>em. send_error e em = None) \<longrightarrow> fst (notify_all e name cs ch) = None"
      by (rule compl)
  qed
qed

theorem enrichment_failure_degrades_witness:
  "details_response (example_env (Inr []) (\<lambda>s. if s = sha1 then Inl (HttpError 403) else example_details s))
     (sha (transformCommitData (example_gh_commit sha1))) = Inl (HttpError 403) \<and>
   send_error (example_env (Inr []) (\<lambda>s. if s = sha1 then Inl (HttpError 403) else example_details s)) =
     (\<lambda>em. None) \<and>
   map (\<lambda>m. map (\<lambda>em. map field_value (embed_fields em)) (embeds m))
     (snd (notify_all
        (example_env (Inr []) (\<lambda>s. if s = sha1 then Inl (HttpError 403) else example_details s))
        (js ''berghain-bot'') [transformCommitData (example_gh_commit sha1)] [])) =
     [[[js ''`main`'', js ''No changes'', js ''No files changed'']]] \<and>
   transformCommitData (example_gh_commit sha1) \<in>
     set [transformCommitData (example_gh_commit sha1), transformCommitData (example_gh_commit sha2)] \<and>
   fst (notify_all
        (example_env (Inr []) (\<lambda>s. if s = sha1 then Inl (HttpError 403) else example_details s))
        (js ''berghain-bot'')
        [transformCommitData (example_gh_commit sha1), transformCommitData (example_gh_commit sha2)]
        []) = None \<and>
   [[js ''`main`'', js ''No changes'', js ''No files changed'']] \<in>
     set (map (\<lambda>m. map (\<lambda>em. map field_value (embed_fields em)) (embeds m))
       (snd (notify_all
          (example_env (Inr []) (\<lambda>s. if s = sha1 then Inl (HttpError 403) else example_details s))
          (js ''berghain-bot'')
          [transformCommitData (example_gh_commit sha1), transformCommitData (example_gh_commit sha2)]
          [])))"
proof -
  let ?e = "example_env (Inr []) (\<lambda>s. if s = sha1 then Inl (HttpError 403) else example_details s)"
  let ?c = "transformCommitData (example_gh_commit sha1)"
  let ?cs = "[?c, transformCommitData (example_gh_commit sha2)]"
  have a: "details_response ?e (sha ?c) = Inl (HttpError 403)"
    by (simp add: example_env_def transformCommitData_def example_gh_commit_def)
  have s: "send_error ?e = (\<lambda>em. None)" by (simp add: example_env_def)
  have all: "\<forall>em. send_error ?e em = None" using s by simp
  have compl1: "fst (notify_all ?e (js ''berghain-bot'') ?cs []) = None"
    using enrichment_failure_degrades [OF a, of "js ''berghain-bot''" "[]" ?cs] all by blast
  from enrichment_failure_degrades [OF a, of "js ''berghain-bot''" "[]" ?cs]
  obtain em where em:
    "createCommitEmbed (toLocale ?e)
       (fakePayload (js ''berghain-bot'') (spread ?c (fetchCommitDetails (details_response ?e (sha ?c)))))
     = Some em"
    "field_value (embed_fields em ! 1) = js ''No changes''"
    "field_value (embed_fields em ! 2) = js ''No files changed''"
    "send_error ?e em = None \<longrightarrow>
       notify_all ?e (js ''berghain-bot'') [?c] [] =
         (None, [\<lparr>msg_author_id = client_user ?e, embeds = [em]\<rparr>])"
    "?c \<in> set ?cs \<and> fst (notify_all ?e (js ''berghain-bot'') ?cs []) = None \<longrightarrow>
       \<lparr>msg_author_id = client_user ?e, embeds = [em]\<rparr> \<in>
         set (snd (notify_all ?e (js ''berghain-bot'') ?cs []))"
    by (elim conjE exE)
  have n: "notify_all ?e (js ''berghain-bot'') [?c] [] =
         (None, [\<lparr>msg_author_id = client_user ?e, embeds = [em]\<rparr>])"
    using em(4) s by simp
  have f0: "map field_value (embed_fields em) =
            [js ''`main`'', js ''No changes'', js ''No files changed'']"
    using em(1,2,3)
    by (auto simp add: createCommitEmbed_def fakePayload_def Let_def js_def)
  have mem: "\<lparr>msg_author_id = client_user ?e, embeds = [em]\<rparr> \<in>
         set (snd (notify_all ?e (js ''berghain-bot'') ?cs []))"
    using em(5) compl1 by simp
  have img: "[[js ''`main`'', js ''No changes'', js ''No files changed'']] \<in>
     set (map (\<lambda>m. map (\<lambda>em. map field_value (embed_fields em)) (embeds m))
       (snd (notify_all ?e (js ''berghain-bot'') ?cs [])))"
    using imageI [OF mem, of "\<lambda>m. map (\<lambda>em. map field_value (embed_fields em)) (embeds m)"] f0
    by simp
  have n1: "map (\<lambda>m. map (\<lambda>em. map field_value (embed_fields em)) (embeds m))
     (snd (notify_all ?e (js ''berghain-bot'') [?c] [])) =
     [[[js ''`main`'', js ''No changes'', js ''No files changed'']]]"
    unfolding n using f0 by simp
  have m0: "?c \<in> set ?cs" by simp
  from a s n1 m0 compl1 img show ?thesis by (intro conjI)
qed

section \<open>The change detector\<close>

lemma findIndex_first:
  "i < length xs \<Longrightarrow> P (xs ! i) \<Longrightarrow> (\<And>j. j < i \<Longrightarrow> \<not> P (xs ! j)) \<Longrightarrow> findIndex P xs = int i"
proof (induction xs arbitrary: i)
  case Nil
  then show ?case by simp
next
  case (Cons x xs)
  show ?case
  proof (cases i)
    case 0
    with Cons.prems show ?thesis by simp
  next
    case (Suc k)
    have nx: "\<not> P x" using Cons.prems(3) [of 0] Suc by simp
    have "findIndex P xs = int k"
    proof (rule Cons.IH)
      show "k < length xs" using Cons.prems(1) Suc by simp
      show "P (xs ! k)" using Cons.prems(2) Suc by simp
      show "\<not> P (xs ! j)" if "j < k" for j using Cons.prems(3) [of "Suc j"] that Suc by simp
    qed
    with nx Suc show ?thesis by simp
  qed
qed

lemma findIndex_absent: "(\<And>x. x \<in> set xs \<Longrightarrow> \<not> P x) \<Longrightarrow> findIndex P xs = - 1"
  by (induction xs) simp_all

text \<open>
  C1. Let the request answer with the window \<open>W\<close>, newest commit first, with pairwise
  distinct commit ids, and let the cursor \<open>c\<close> be the (non-empty) id of the commit at
  index \<open>i\<close> of \<open>W\<close>. Then detection returns the commits at the indices below \<open>i\<close>,
  those newer than the cursor, in reverse, that is oldest first. For the window
  \<open>[c5, c4, c3, c2, c1]\<close> and the cursor \<open>c3\<close> it returns \<open>[c4, c5]\<close>.
\<close>

theorem checkForNewCommits_newer_than_cursor:
  assumes "fetchLatestCommits response = Inr W"
    and "distinct (map sha W)"
    and "i < length W"
    and "sha (W ! i) = c"
    and "c \<noteq> []"
  shows "checkForNewCommits response (Some c) = rev (take i W)"
proof -
  have first: "sha (W ! j) \<noteq> c" if "j < i" for j
  proof
    assume "sha (W ! j) = c"
    then have "map sha W ! j = map sha W ! i" using assms(3,4) that by simp
    moreover have "j < length (map sha W)" "i < length (map sha W)" using assms(3) that by simp_all
    ultimately have "j = i" using assms(2) nth_eq_iff_index_eq [of "map sha W" j i] by blast
    with that show False by simp
  qed
  have "findIndex (\<lambda>x. Some (sha x) = Some c) W = int i"
    by (rule findIndex_first) (use assms first in auto)
  then show ?thesis using assms(1,5)
    by (simp add: checkForNewCommits_def falsy_def)
qed

theorem checkForNewCommits_newer_than_cursor_witness:
  "fetchLatestCommits (Inr (map example_gh_commit [sha5, sha4, sha3, sha2, sha1])) =
     Inr (map (transformCommitData \<circ> example_gh_commit) [sha5, sha4, sha3, sha2, sha1]) \<and>
   distinct (map sha (map (transformCommitData \<circ> example_gh_commit) [sha5, sha4, sha3, sha2, sha1])) \<and>
   (2 :: nat) < length (map (transformCommitData \<circ> example_gh_commit) [sha5, sha4, sha3, sha2, sha1]) \<and>
   sha (map (transformCommitData \<circ> example_gh_commit) [sha5, sha4, sha3, sha2, sha1] ! 2) = sha3 \<and>
   sha3 \<noteq> [] \<and>
   checkForNewCommits (Inr (map example_gh_commit [sha5, sha4, sha3, sha2, sha1])) (Some sha3) =
     map (transformCommitData \<circ> example_gh_commit) [sha4, sha5]"
proof -
  let ?W = "map (transformCommitData \<circ> example_gh_commit) [sha5, sha4, sha3, sha2, sha1]"
  have a: "fetchLatestCommits (Inr (map example_gh_commit [sha5, sha4, sha3, sha2, sha1])) = Inr ?W"
    by (simp add: fetchLatestCommits_def)
  have b: "distinct (map sha ?W)"
    by (simp add: transformCommitData_def example_gh_commit_def sha1_def sha2_def sha3_def sha4_def sha5_def js_def)
  have c: "(2 :: nat) < length ?W" by simp
  have d: "sha (?W ! 2) = sha3" by (simp add: transformCommitData_def example_gh_commit_def)
  have e: "sha3 \<noteq> []" by (simp add: sha3_def js_def)
  show ?thesis
    using a b c d e checkForNewCommits_newer_than_cursor [OF a b c d e]
    by simp
qed

text \<open>
  C4, as stated, at the empty window: with no cursor, detection on a request that
  answers with no commit returns no commit, not one.
\<close>

theorem checkForNewCommits_first_run_empty_window:
  "checkForNewCommits (Inr []) None = [] \<and> length (checkForNewCommits (Inr []) None) \<noteq> 1"
  by (simp add: checkForNewCommits_def fetchLatestCommits_def falsy_def)

text \<open>
  C4, amended. When the request answers with the window \<open>W\<close> and there is no cursor, or
  the cursor is the id of no commit of \<open>W\<close>, detection returns the list of the newest
  commit alone when \<open>W\<close> is not empty, and the empty list when \<open>W\<close> is empty. It
  returns a list in every case: it never fails the cycle.
\<close>

theorem checkForNewCommits_without_cursor:
  assumes "fetchLatestCommits response = Inr W"
    and "cursor = None \<or> (\<forall>c \<in> set W. Some (sha c) \<noteq> cursor)"
  shows "checkForNewCommits response cursor =
           (case W of [] \<Rightarrow> [] | newest # older \<Rightarrow> [newest])"
proof -
  have take1: "take 1 W = (case W of [] \<Rightarrow> [] | newest # older \<Rightarrow> [newest])"
    by (cases W) simp_all
  show ?thesis
  proof (cases "falsy cursor")
    case True
    then show ?thesis using assms(1) take1 by (simp add: checkForNewCommits_def)
  next
    case False
    then have "cursor \<noteq> None" by (cases cursor) (simp_all add: falsy_def)
    with assms(2) have "\<And>x. x \<in> set W \<Longrightarrow> \<not> Some (sha x) = cursor" by auto
    then have "findIndex (\<lambda>x. Some (sha x) = cursor) W = - 1" by (rule findIndex_absent)
    then show ?thesis using assms(1) take1 False by (simp add: checkForNewCommits_def)
  qed
qed

theorem checkForNewCommits_without_cursor_witness:
  "fetchLatestCommits (Inr (map example_gh_commit [sha2, sha1])) =
     Inr (map (transformCommitData \<circ> example_gh_commit) [sha2, sha1]) \<and>
   checkForNewCommits (Inr (map example_gh_commit [sha2, sha1])) None =
     [transformCommitData (example_gh_commit sha2)] \<and>
   sha5 \<notin> set (map sha (map (transformCommitData \<circ> example_gh_commit) [sha2, sha1])) \<and>
   checkForNewCommits (Inr (map example_gh_commit [sha2, sha1])) (Some sha5) =
     [transformCommitData (example_gh_commit sha2)]"
proof -
  let ?W = "map (transformCommitData \<circ> example_gh_commit) [sha2, sha1]"
  have a: "fetchLatestCommits (Inr (map example_gh_commit [sha2, sha1])) = Inr ?W"
    by (simp add: fetchLatestCommits_def)
  have b: "\<forall>c \<in> set ?W. Some (sha c) \<noteq> Some sha5"
    by (simp add: transformCommitData_def example_gh_commit_def sha1_def sha2_def sha5_def js_def)
  have c: "None = None \<or> (\<forall>c \<in> set ?W. Some (sha c) \<noteq> (None :: jsstring option))" by simp
  have d: "Some sha5 = None \<or> (\<forall>c \<in> set ?W. Some (sha c) \<noteq> Some sha5)" using b by simp
  have e: "sha5 \<notin> set (map sha ?W)"
    by (simp add: transformCommitData_def example_gh_commit_def sha1_def sha2_def sha5_def js_def)
  show ?thesis
    using a e checkForNewCommits_without_cursor [OF a c] checkForNewCommits_without_cursor [OF a d]
    by simp
qed

section \<open>The cursor store\<close>

text \<open>
  C9, as stated, at a commit whose message is empty: the tracker is written with the
  author, the empty message and the timestamp of the commit, and the metadata read back
  holds the message \<open>unknown\<close>, not the one written.
\<close>

theorem tracker_empty_message_not_read_back:
  "(case updateLastSeenCommit (js ''2025-09-01T10:03:05.000Z'') (js ''2025-09-01T10:03:05.001Z'')
           example_fs sha1
           (MetadataObject \<lparr>arg_author = Some (js ''alice''), arg_message = Some [],
                            arg_timestamp = Some example_timestamp\<rparr>) of
      Inl failure \<Rightarrow> None
    | Inr fs' \<Rightarrow> info_metadata (fst (getTrackingInfo fs'))) =
     Some \<lparr>meta_author = js ''alice'', meta_message = js ''unknown'',
           meta_timestamp = example_timestamp\<rparr> \<and>
   \<lparr>meta_author = js ''alice'', meta_message = js ''unknown'',
    meta_timestamp = example_timestamp\<rparr> \<noteq>
   \<lparr>meta_author = js ''alice'', meta_message = [], meta_timestamp = example_timestamp\<rparr>"
  by (simp add: updateLastSeenCommit_def getTrackingInfo_def ensureDataDirectory_def
      example_fs_def Let_def metadata_properties_def or_else_def js_def
      example_timestamp_def)

text \<open>
  C9, amended. When the write succeeds (the data directory exists or can be created, and
  the file can be written), the commit id read back by \<open>getTrackingInfo\<close> is the one
  written, and so is the one read back by \<open>getLastSeenCommit\<close> when it is not empty.
  The metadata read back is the metadata written with each missing or empty field
  replaced by its default (\<open>unknown\<close> for author and message, the time of writing for
  the timestamp); it equals the metadata written when author, message and timestamp are
  all present and non-empty.
\<close>

theorem tracker_round_trip:
  assumes "dir_exists fs \<or> can_mkdir fs" and "can_write fs"
  shows "\<exists>fs'. updateLastSeenCommit now1 now2 fs commitSha v = Inr fs' \<and>
           info_lastCommitSha (fst (getTrackingInfo fs')) = Some commitSha \<and>
           fst (getLastSeenCommit fs') = (if commitSha = [] then None else Some commitSha) \<and>
           info_metadata (fst (getTrackingInfo fs')) =
             Some \<lparr>meta_author = or_else (arg_author (metadata_properties v)) (js ''unknown''),
                   meta_message = or_else (arg_message (metadata_properties v)) (js ''unknown''),
                   meta_timestamp = or_else (arg_timestamp (metadata_properties v)) now2\<rparr> \<and>
           (\<forall>a msg t.
              v = MetadataObject \<lparr>arg_author = Some a, arg_message = Some msg,
                                  arg_timestamp = Some t\<rparr> \<and>
              a \<noteq> [] \<and> msg \<noteq> [] \<and> t \<noteq> [] \<longrightarrow>
              info_metadata (fst (getTrackingInfo fs')) =
                Some \<lparr>meta_author = a, meta_message = msg, meta_timestamp = t\<rparr>)"
  using assms
  by (auto simp add: updateLastSeenCommit_def getTrackingInfo_def getLastSeenCommit_def
      ensureDataDirectory_def Let_def metadata_properties_def or_else_def)

theorem tracker_round_trip_witness:
  "(dir_exists example_fs \<or> can_mkdir example_fs) \<and> can_write example_fs \<and>
   (\<exists>fs'. updateLastSeenCommit (js ''2025-09-01T10:03:05.000Z'') (js ''2025-09-01T10:03:05.001Z'')
            example_fs sha1
            (MetadataObject \<lparr>arg_author = Some (js ''alice''), arg_message = Some (js ''Fix bug''),
                             arg_timestamp = Some example_timestamp\<rparr>) = Inr fs' \<and>
          fst (getLastSeenCommit fs') = Some sha1 \<and>
          info_lastCommitSha (fst (getTrackingInfo fs')) = Some sha1 \<and>
          info_metadata (fst (getTrackingInfo fs')) =
            Some \<lparr>meta_author = js ''alice'', meta_message = js ''Fix bug'',
                  meta_timestamp = example_timestamp\<rparr>)"
proof -
  have a: "dir_exists example_fs \<or> can_mkdir example_fs" by (simp add: example_fs_def)
  have b: "can_write example_fs" by (simp add: example_fs_def)
  have c: "sha1 \<noteq> []" "js ''alice'' \<noteq> []" "js ''Fix bug'' \<noteq> []" "example_timestamp \<noteq> []"
    by (simp_all add: sha1_def js_def example_timestamp_def)
  from tracker_round_trip [OF a b, of "js ''2025-09-01T10:03:05.000Z''" "js ''2025-09-01T10:03:05.001Z''" sha1
      "MetadataObject \<lparr>arg_author = Some (js ''alice''), arg_message = Some (js ''Fix bug''),
                             arg_timestamp = Some example_timestamp\<rparr>"]
  show ?thesis using a b c by auto
qed

section \<open>The polling cycle\<close>

lemma notify_all_single:
  assumes "createCommitEmbed (toLocale e)
             (fakePayload name (spread c (fetchCommitDetails (details_response e (sha c))))) = Some em"
    and "send_error e em = None"
  shows "notify_all e name [c] ch = (None, \<lparr>msg_author_id = client_user e, embeds = [em]\<rparr> # ch)"
  using assms by (simp add: Let_def)

lemma example_window:
  "checkForNewCommits (Inr [example_gh_commit sha2, example_gh_commit sha1]) None
     = [transformCommitData (example_gh_commit sha2)]"
  "checkForNewCommits (Inr [example_gh_commit sha2, example_gh_commit sha1]) (Some (js ''b2c3d4e''))
     = [transformCommitData (example_gh_commit sha2)]"
  "checkForNewCommits (Inr [example_gh_commit sha2, example_gh_commit sha1]) (Some sha2) = []"
  by (simp_all add: checkForNewCommits_def fetchLatestCommits_def falsy_def
      transformCommitData_def example_gh_commit_def sha1_def sha2_def js_def)

lemma example_footer_split:
  "js_split (js ''b2c3d4e'' @ separator @ js ''9/1/2025, 10:00:00 AM'') separator ! 0 = js ''b2c3d4e''"
  by (simp add: js_split_def separator_def bullet_def js_def)

lemma example_cycle_env_simps:
  "commits_response example_cycle_env = Inr [example_gh_commit sha2, example_gh_commit sha1]"
  "channel_cached example_cycle_env"
  "send_error example_cycle_env em = None"
  "history_error example_cycle_env = None"
  "client_user example_cycle_env = js ''1400000000000000001''"
  "toLocale example_cycle_env t = js ''9/1/2025, 10:00:00 AM''"
  "now example_cycle_env = js ''2025-09-01T10:03:05.000Z''"
  by (simp_all add: example_cycle_env_def example_env_def)

lemma example_first_cycle:
  "\<exists>em. footer em = Some (js ''b2c3d4e'' @ separator @ js ''9/1/2025, 10:00:00 AM'') \<and>
     (\<forall>ch. notify_all example_cycle_env (js ''Berghain Bot'')
          [transformCommitData (example_gh_commit sha2)] ch =
        (None, \<lparr>msg_author_id = js ''1400000000000000001'', embeds = [em]\<rparr> # ch)) \<and>
     (\<forall>ch. notify_all example_cycle_env (js ''berghain-bot'')
          [transformCommitData (example_gh_commit sha2)] ch =
        (None, \<lparr>msg_author_id = js ''1400000000000000001'',
                embeds = [em\<lparr>title := [0xD83D, 0xDCDD] @ js '' New commit to '' @ js ''berghain-bot''\<rparr>]\<rparr> # ch))"
proof -
  let ?c = "transformCommitData (example_gh_commit sha2)"
  let ?p = "\<lambda>name. fakePayload name
             (spread ?c (fetchCommitDetails (details_response example_cycle_env (sha ?c))))"
  obtain em where em: "createCommitEmbed (toLocale example_cycle_env) (?p (js ''Berghain Bot'')) = Some em"
    using createCommitEmbed_fakePayload by blast
  have f: "footer em = Some (js ''b2c3d4e'' @ separator @ js ''9/1/2025, 10:00:00 AM'')"
    using em
    by (auto simp add: createCommitEmbed_def fakePayload_def Let_def substring0_def spread_def
        transformCommitData_def example_gh_commit_def sha2_def example_cycle_env_simps js_def)
  have em': "createCommitEmbed (toLocale example_cycle_env) (?p (js ''berghain-bot'')) =
       Some (em\<lparr>title := [0xD83D, 0xDCDD] @ js '' New commit to '' @ js ''berghain-bot''\<rparr>)"
    using em
    by (auto simp add: createCommitEmbed_def fakePayload_def Let_def)
  have n: "notify_all example_cycle_env (js ''Berghain Bot'') [?c] ch =
        (None, \<lparr>msg_author_id = js ''1400000000000000001'', embeds = [em]\<rparr> # ch)" for ch
    using notify_all_single [OF em example_cycle_env_simps(3)]
    by (simp add: example_cycle_env_simps)
  have n': "notify_all example_cycle_env (js ''berghain-bot'') [?c] ch =
        (None, \<lparr>msg_author_id = js ''1400000000000000001'',
                embeds = [em\<lparr>title := [0xD83D, 0xDCDD] @ js '' New commit to '' @ js ''berghain-bot''\<rparr>]\<rparr> # ch)" for ch
    using notify_all_single [OF em' example_cycle_env_simps(3)]
    by (simp add: example_cycle_env_simps)
  from f n n' show ?thesis by blast
qed

text \<open>
  C2, on the code. The footer of the payload sent for a commit is the first seven
  characters of its id, the separator and the date. A cycle of the many-repository
  poller notifies the newest commit of a window of two; the cursor then read from the
  channel is that seven-character prefix; detection with it over the same window does
  not find the commit, whose \<open>sha\<close> has forty characters, and returns the newest commit
  again, where the full id as cursor gives the empty list; so the next cycle posts the
  same commit a second time.
\<close>

theorem footer_cursor_does_not_locate_commit:
  "map (\<lambda>m. map footer (embeds m))
     (channel_messages (snd (pollForCommits_multi example_config example_cycle_env example_world))) =
     [[Some (take 7 sha2 @ separator @ js ''9/1/2025, 10:00:00 AM'')]] \<and>
   getLastCommitFromChannel (client_user example_cycle_env)
     (Some (Inr (take 10 (channel_messages
        (snd (pollForCommits_multi example_config example_cycle_env example_world)))))) =
     Some (take 7 sha2) \<and>
   checkForNewCommits (commits_response example_cycle_env) (Some (take 7 sha2)) =
     [transformCommitData (example_gh_commit sha2)] \<and>
   checkForNewCommits (commits_response example_cycle_env) (Some sha2) = [] \<and>
   map (\<lambda>m. map footer (embeds m))
     (channel_messages (snd (pollForCommits_multi example_config example_cycle_env
        (snd (pollForCommits_multi example_config example_cycle_env example_world))))) =
     [[Some (take 7 sha2 @ separator @ js ''9/1/2025, 10:00:00 AM'')],
      [Some (take 7 sha2 @ separator @ js ''9/1/2025, 10:00:00 AM'')]]"
proof -
  obtain em where f: "footer em = Some (js ''b2c3d4e'' @ separator @ js ''9/1/2025, 10:00:00 AM'')"
    and n: "\<And>ch. notify_all example_cycle_env (js ''Berghain Bot'')
          [transformCommitData (example_gh_commit sha2)] ch =
        (None, \<lparr>msg_author_id = js ''1400000000000000001'', embeds = [em]\<rparr> # ch)"
    using example_first_cycle by blast
  have short: "take 7 sha2 = js ''b2c3d4e''" by (simp add: sha2_def js_def)
  have ne: "js ''b2c3d4e'' @ separator @ js ''9/1/2025, 10:00:00 AM'' \<noteq> []" by (simp add: js_def)
  let ?msg = "\<lparr>msg_author_id = js ''1400000000000000001'', embeds = [em]\<rparr>"
  have c1: "snd (pollForCommits_multi example_config example_cycle_env example_world) =
     \<lparr>tracker = example_fs\<lparr>dir_exists := True,
          tracker_file := Some \<lparr>lastCommitSha = js ''berghain-bot'',
             lastUpdated = js ''2025-09-01T10:03:05.000Z'',
             metadata = \<lparr>meta_author = js ''unknown'', meta_message = js ''unknown'',
                          meta_timestamp = js ''2025-09-01T10:03:05.000Z''\<rparr>\<rparr>\<rparr>,
      channel_messages = [?msg]\<rparr>"
    by (simp add: pollForCommits_multi_def example_cycle_env_simps example_world_def
        getLastCommitFromChannel_def example_window n Let_def updateLastSeenCommit_def
        ensureDataDirectory_def example_fs_def metadata_properties_def or_else_def
        example_config_def del: notify_all.simps)
  have cur: "getLastCommitFromChannel (js ''1400000000000000001'') (Some (Inr [?msg])) = Some (js ''b2c3d4e'')"
    using f ne by (simp add: getLastCommitFromChannel_def example_footer_split)
  have c2: "channel_messages (snd (pollForCommits_multi example_config example_cycle_env
        \<lparr>tracker = fs, channel_messages = [?msg]\<rparr>)) = [?msg, ?msg]" for fs
    using cur
    by (simp add: pollForCommits_multi_def example_cycle_env_simps
        example_window n Let_def updateLastSeenCommit_def
        ensureDataDirectory_def example_config_def split: sum.splits prod.splits
        del: notify_all.simps)
  show ?thesis
    unfolding c1 short
    using cur f c2 by (simp add: example_cycle_env_simps example_window)
qed

text \<open>
  C3, on the code. In a cycle of the many-repository poller that delivers the commit
  \<open>sha2\<close> and completes, the tracker is overwritten with the repository name
  \<open>berghain-bot\<close> in the place of the commit id; the one-repository poller stores
  \<open>sha2\<close> on the same input.
\<close>

theorem multi_repository_cycle_stores_repository_name:
  "fst (pollForCommits_multi example_config example_cycle_env example_world) = Completed \<and>
   map (\<lambda>m. map footer (embeds m))
     (channel_messages (snd (pollForCommits_multi example_config example_cycle_env example_world))) =
     [[Some (take 7 sha2 @ separator @ js ''9/1/2025, 10:00:00 AM'')]] \<and>
   map_option lastCommitSha
     (tracker_file (tracker (snd (pollForCommits_multi example_config example_cycle_env
        example_world)))) = Some (js ''berghain-bot'') \<and>
   js ''berghain-bot'' \<noteq> sha2 \<and>
   map_option lastCommitSha
     (tracker_file (tracker (snd (pollForCommits example_cycle_env example_world)))) = Some sha2"
proof -
  obtain em where f: "footer em = Some (js ''b2c3d4e'' @ separator @ js ''9/1/2025, 10:00:00 AM'')"
    and n: "\<And>ch. notify_all example_cycle_env (js ''Berghain Bot'')
          [transformCommitData (example_gh_commit sha2)] ch =
        (None, \<lparr>msg_author_id = js ''1400000000000000001'', embeds = [em]\<rparr> # ch)"
    and n': "\<And>ch. notify_all example_cycle_env (js ''berghain-bot'')
          [transformCommitData (example_gh_commit sha2)] ch =
        (None, \<lparr>msg_author_id = js ''1400000000000000001'',
                embeds = [em\<lparr>title := [0xD83D, 0xDCDD] @ js '' New commit to '' @ js ''berghain-bot''\<rparr>]\<rparr> # ch)"
    using example_first_cycle by blast
  have short: "take 7 sha2 = js ''b2c3d4e''" by (simp add: sha2_def js_def)
  have differ: "js ''berghain-bot'' \<noteq> sha2" by (simp add: sha2_def js_def)
  have sha: "sha (transformCommitData (example_gh_commit s)) = s" for s
    by (simp add: transformCommitData_def example_gh_commit_def)
  have multi: "pollForCommits_multi example_config example_cycle_env example_world =
     (Completed,
      \<lparr>tracker = example_fs\<lparr>dir_exists := True,
          tracker_file := Some \<lparr>lastCommitSha = js ''berghain-bot'',
             lastUpdated = js ''2025-09-01T10:03:05.000Z'',
             metadata = \<lparr>meta_author = js ''unknown'', meta_message = js ''unknown'',
                          meta_timestamp = js ''2025-09-01T10:03:05.000Z''\<rparr>\<rparr>\<rparr>,
       channel_messages = [\<lparr>msg_author_id = js ''1400000000000000001'', embeds = [em]\<rparr>]\<rparr>)"
    by (simp add: pollForCommits_multi_def example_cycle_env_simps example_world_def
        getLastCommitFromChannel_def example_window n Let_def updateLastSeenCommit_def
        ensureDataDirectory_def example_fs_def metadata_properties_def or_else_def
        example_config_def del: notify_all.simps)
  have single: "tracker_file (tracker (snd (pollForCommits example_cycle_env example_world))) =
      Some \<lparr>lastCommitSha = sha2,
             lastUpdated = js ''2025-09-01T10:03:05.000Z'',
             metadata = \<lparr>meta_author = js ''unknown'', meta_message = js ''unknown'',
                          meta_timestamp = js ''2025-09-01T10:03:05.000Z''\<rparr>\<rparr>"
    by (simp add: pollForCommits_def example_cycle_env_simps example_world_def
        getLastSeenCommit_def example_window n' Let_def updateLastSeenCommit_def
        ensureDataDirectory_def example_fs_def metadata_properties_def or_else_def
        sha del: notify_all.simps)
  show ?thesis
    unfolding multi single short using f differ by simp
qed

text \<open>
  The same in general: whenever the many-repository cycle changes the stored record, the
  stored id is the repository name. Whenever the one-repository cycle changes it, the
  cycle has completed with every send successful, and the stored id is that of the
  newest commit of the window, which differs from the cursor read at the start.
\<close>

lemma updateLastSeenCommit_Inr:
  "updateLastSeenCommit n1 n2 fs s v = Inr fs' \<Longrightarrow>
   map_option lastCommitSha (tracker_file fs') = Some s"
  by (auto simp add: updateLastSeenCommit_def Let_def split: sum.splits if_splits)

lemma updateLastSeenCommit_Inl:
  "updateLastSeenCommit n1 n2 fs s v = Inl (err, fs') \<Longrightarrow> tracker_file fs' = tracker_file fs"
  by (auto simp add: updateLastSeenCommit_def ensureDataDirectory_def Let_def
      split: sum.splits if_splits)

lemma getLastSeenCommit_file:
  "tracker_file (snd (getLastSeenCommit fs)) = tracker_file fs"
  by (auto simp add: getLastSeenCommit_def ensureDataDirectory_def split: sum.splits option.splits)

lemma getLastSeenCommit_not_empty: "fst (getLastSeenCommit fs) \<noteq> Some []"
  by (auto simp add: getLastSeenCommit_def split: sum.splits option.splits)

lemma pollForCommits_multi_stores_repository_name:
  "tracker_file (tracker (snd (pollForCommits_multi cfg e w))) = tracker_file (tracker w) \<or>
   map_option lastCommitSha (tracker_file (tracker (snd (pollForCommits_multi cfg e w)))) =
     Some (repo cfg)"
  by (auto simp add: pollForCommits_multi_def Let_def
      dest: updateLastSeenCommit_Inr updateLastSeenCommit_Inl
      split: prod.splits option.splits sum.splits simp del: notify_all.simps)

lemma findIndex_head: "findIndex P (x # xs) \<noteq> 0 \<Longrightarrow> \<not> P x"
  by (cases "P x") simp_all

lemma checkForNewCommits_last:
  assumes "fetchLatestCommits r = Inr W" and "checkForNewCommits r cur \<noteq> []"
    and "cur \<noteq> Some []"
  shows "W \<noteq> [] \<and> last (checkForNewCommits r cur) = hd W \<and> cur \<noteq> Some (sha (hd W))"
proof (cases W)
  case Nil
  with assms show ?thesis by (simp add: checkForNewCommits_def Let_def)
next
  case (Cons x xs)
  show ?thesis
  proof (cases "falsy cur")
    case True
    with assms(3) have "cur = None" by (cases cur) (simp_all add: falsy_def)
    with assms(1) Cons show ?thesis by (simp add: checkForNewCommits_def falsy_def)
  next
    case False
    define i where "i = findIndex (\<lambda>c. Some (sha c) = cur) W"
    have res: "checkForNewCommits r cur = (if i = - 1 then take 1 W else rev (take (nat i) W))"
      using False assms(1) by (simp add: checkForNewCommits_def Let_def i_def)
    have i0: "i \<noteq> 0"
    proof
      assume "i = 0"
      then have "checkForNewCommits r cur = []" using res by simp
      with assms(2) show False by simp
    qed
    have nx: "cur \<noteq> Some (sha x)"
      using findIndex_head [of "\<lambda>c. Some (sha c) = cur" x xs] i0 Cons
      unfolding i_def by blast
    have "last (checkForNewCommits r cur) = x"
    proof (cases "i = - 1")
      case True
      then show ?thesis using res Cons by simp
    next
      case neg: False
      then have r2: "checkForNewCommits r cur = rev (take (nat i) (x # xs))" using res Cons by simp
      obtain k where k: "nat i = Suc k"
        using assms(2) r2 by (cases "nat i") simp_all
      show ?thesis unfolding r2 k by simp
    qed
    with nx Cons show ?thesis by simp
  qed
qed

lemma pollForCommits_cursor_advance:
  assumes "fetchLatestCommits (commits_response e) = Inr W"
    and "tracker_file (tracker (snd (pollForCommits e w))) \<noteq> tracker_file (tracker w)"
  shows "W \<noteq> [] \<and>
         fst (pollForCommits e w) = Completed \<and>
         map_option lastCommitSha (tracker_file (tracker (snd (pollForCommits e w)))) =
           Some (sha (hd W)) \<and>
         fst (getLastSeenCommit (tracker w)) \<noteq> Some (sha (hd W)) \<and>
         fst (notify_all e (js ''berghain-bot'')
                (checkForNewCommits (commits_response e) (fst (getLastSeenCommit (tracker w))))
                (channel_messages w)) = None"
proof -
  obtain lastSeen fs1 where g: "getLastSeenCommit (tracker w) = (lastSeen, fs1)"
    by (cases "getLastSeenCommit (tracker w)")
  have fs1: "tracker_file fs1 = tracker_file (tracker w)"
    using getLastSeenCommit_file [of "tracker w"] g by simp
  have ls: "lastSeen \<noteq> Some []" using getLastSeenCommit_not_empty [of "tracker w"] g by simp
  let ?new = "checkForNewCommits (commits_response e) lastSeen"
  obtain r ch where n: "notify_all e (js ''berghain-bot'') ?new (channel_messages w) = (r, ch)"
    by (cases "notify_all e (js ''berghain-bot'') ?new (channel_messages w)")
  have ne: "?new \<noteq> []" using assms(2) g fs1
    by (auto simp add: pollForCommits_def Let_def simp del: notify_all.simps)
  have cached: "channel_cached e" using assms(2) g fs1 ne
    by (auto simp add: pollForCommits_def Let_def simp del: notify_all.simps split: if_splits)
  have r: "r = None" using assms(2) g fs1 ne cached n
    by (cases r) (auto simp add: pollForCommits_def Let_def simp del: notify_all.simps)
  obtain fs2 where u: "updateLastSeenCommit (now e) (now e) fs1
        (sha (?new ! (length ?new - 1))) NoMetadata = Inr fs2"
    using assms(2) g fs1 ne cached n r
    by (cases "updateLastSeenCommit (now e) (now e) fs1 (sha (?new ! (length ?new - 1))) NoMetadata")
       (auto simp add: pollForCommits_def Let_def simp del: notify_all.simps
        dest: updateLastSeenCommit_Inl)
  have p: "pollForCommits e w = (Completed, \<lparr>tracker = fs2, channel_messages = ch\<rparr>)"
    using g ne cached n r u by (simp add: pollForCommits_def Let_def del: notify_all.simps)
  have l: "W \<noteq> [] \<and> last ?new = hd W \<and> lastSeen \<noteq> Some (sha (hd W))"
    using checkForNewCommits_last [OF assms(1) ne ls] .
  have "?new ! (length ?new - 1) = last ?new" using ne by (simp add: last_conv_nth)
  with l u have "map_option lastCommitSha (tracker_file fs2) = Some (sha (hd W))"
    using updateLastSeenCommit_Inr by fastforce
  with p l g n r show ?thesis by simp
qed

end
